theory Spec2Isabelle
  imports Complex_Main
begin

section \<open>Energy consumption analyser: the data frames and the loader\<close>

text \<open>
  The program (\<^verbatim>\<open>streamlit_app.py\<close>) reads a CSV table with pandas, cleans it in
  \<^verbatim>\<open>load_data\<close>, filters it by date in \<^verbatim>\<open>display_filtered_data\<close> and computes
  three aggregates in \<^verbatim>\<open>plot_consumo_por_dia\<close>, \<^verbatim>\<open>plot_consumo_horario_medio\<close> and
  \<^verbatim>\<open>plot_distribuicao_consumo\<close>.

  Conventions of the model.
  \<^item> A pandas timestamp (\<^verbatim>\<open>datetime64[ns]\<close>) is its integer value: nanoseconds since
    1970-01-01 00:00:00. A calendar date is its day number since 1970-01-01.
  \<^item> A \<^verbatim>\<open>float64\<close> cell is the real number it stands for; a missing value
    (\<^verbatim>\<open>NaN\<close>, \<^verbatim>\<open>NaT\<close>) is \<open>None\<close>, and infinities are not modelled. The sums and
    means that pandas computes over such cells are \<^verbatim>\<open>float64\<close> results of library
    routines, rounded as these routines round; they are parameters of the aggregators
    (a function from the list of values to the result), not sums of real numbers.
  \<^item> The table that \<^verbatim>\<open>pd.read_csv\<close> returns is the input of the model: the column
    names of the header and one list of cells per row, with one cell per column. The
    type \<open>'c\<close> of a raw cell is left open.
  \<^item> The grammars of \<^verbatim>\<open>pd.to_datetime\<close> and \<^verbatim>\<open>pd.to_numeric\<close> belong to pandas;
    they are parameters of \<open>load_data\<close>. Each receives the whole column (pandas may
    infer a format from it). On a column it either raises (\<open>None\<close>; with
    \<^verbatim>\<open>errors='coerce'\<close> pandas still raises on some columns, for instance on time
    stamps with mixed UTC offsets) or yields the coercion of the cells, which returns
    \<open>None\<close> for a cell that \<^verbatim>\<open>errors='coerce'\<close> turns into a missing value.
  \<^item> Column names are ASCII strings.
\<close>

subsection \<open>Timestamps\<close>

type_synonym timestamp = int
type_synonym date = int

definition ns_per_hour :: int where
  "ns_per_hour = 3600000000000"

definition ns_per_day :: int where
  "ns_per_day = 86400000000000"

text \<open>\<^verbatim>\<open>Series.dt.date\<close>: the calendar date of a timestamp.\<close>

definition dt_date :: "timestamp \<Rightarrow> date" where
  "dt_date t = t div ns_per_day"

text \<open>\<^verbatim>\<open>Series.dt.hour\<close>: the hour of the day of a timestamp.\<close>

definition dt_hour :: "timestamp \<Rightarrow> int" where
  "dt_hour t = (t mod ns_per_day) div ns_per_hour"

text \<open>\<^verbatim>\<open>pd.to_datetime\<close> of a calendar date: midnight at the start of that day.\<close>

definition to_datetime_date :: "date \<Rightarrow> timestamp" where
  "to_datetime_date d = d * ns_per_day"

text \<open>
  The day number of a date of the proleptic Gregorian calendar given as year, month and
  day, and a timestamp given as a date and a time of day; used to write examples.
\<close>

definition ymd :: "int \<Rightarrow> int \<Rightarrow> int \<Rightarrow> date" where
  "ymd y m d =
     (let y' = (if m \<le> 2 then y - 1 else y);
          era = y' div 400;
          yoe = y' - era * 400;
          doy = (153 * (if m > 2 then m - 3 else m + 9) + 2) div 5 + d - 1;
          doe = yoe * 365 + yoe div 4 - yoe div 100 + doy
      in era * 146097 + doe - 719468)"

definition at_time :: "date \<Rightarrow> int \<Rightarrow> int \<Rightarrow> timestamp" where
  "at_time d h m = d * ns_per_day + h * ns_per_hour + m * 60000000000"

subsection \<open>Frames\<close>

text \<open>The table as \<^verbatim>\<open>pd.read_csv\<close> returns it.\<close>

record 'c csv_frame =
  columns :: "string list"
  cells :: "'c list list"

text \<open>
  The cleaned frame: the three required columns, row by row, and the two derived
  columns \<^verbatim>\<open>'Dia'\<close> and \<^verbatim>\<open>'Hora'\<close> that the aggregators add (\<open>None\<close>: the frame has no
  such column).
\<close>

record row =
  Data_hora :: timestamp
  Consumo_kwh :: real
  Custo_total :: real

record frame =
  rows :: "row list"
  Dia :: "date list option"
  Hora :: "int list option"

datatype error = MissingColumns | LoadFailure | ValueError

subsection \<open>Column names\<close>

text \<open>
  \<^verbatim>\<open>col.strip().replace(" ", "_").capitalize()\<close> (line 14). \<^verbatim>\<open>strip\<close> removes the
  white space at both ends, \<^verbatim>\<open>capitalize\<close> puts the first character in upper case and
  the others in lower case.
\<close>

definition isspace :: "char \<Rightarrow> bool" where
  "isspace c = (c \<in> set [CHR '' '', CHR 0x09, CHR 0x0A, CHR 0x0B, CHR 0x0C, CHR 0x0D,
                          CHR 0x1C, CHR 0x1D, CHR 0x1E, CHR 0x1F])"

definition strip :: "string \<Rightarrow> string" where
  "strip s = rev (dropWhile isspace (rev (dropWhile isspace s)))"

definition replace_spaces :: "string \<Rightarrow> string" where
  "replace_spaces s = map (\<lambda>c. if c = CHR '' '' then CHR ''_'' else c) s"

definition ascii_lowercase :: string where
  "ascii_lowercase = ''abcdefghijklmnopqrstuvwxyz''"

definition ascii_uppercase :: string where
  "ascii_uppercase = ''ABCDEFGHIJKLMNOPQRSTUVWXYZ''"

definition upper :: "char \<Rightarrow> char" where
  "upper c = (case map_of (zip ascii_lowercase ascii_uppercase) c of
                Some u \<Rightarrow> u | None \<Rightarrow> c)"

definition lower :: "char \<Rightarrow> char" where
  "lower c = (case map_of (zip ascii_uppercase ascii_lowercase) c of
                Some l \<Rightarrow> l | None \<Rightarrow> c)"

fun capitalize :: "string \<Rightarrow> string" where
  "capitalize [] = []"
| "capitalize (c # cs) = upper c # map lower cs"

definition normalize_column :: "string \<Rightarrow> string" where
  "normalize_column col = capitalize (replace_spaces (strip col))"

definition required_columns :: "string list" where
  "required_columns = [''Data/hora'', ''Consumo_kwh'', ''Custo_total'']"

subsection \<open>The loader\<close>

text \<open>
  \<^verbatim>\<open>data[name]\<close> for a column name that occurs once: the cells of that column, one per
  row.
\<close>

fun index_of :: "'a \<Rightarrow> 'a list \<Rightarrow> nat" where
  "index_of x [] = 0"
| "index_of x (y # ys) = (if x = y then 0 else Suc (index_of x ys))"

definition getitem :: "string list \<Rightarrow> 'c list list \<Rightarrow> string \<Rightarrow> 'c list" where
  "getitem names rs name = map (\<lambda>r. r ! index_of name names) rs"

text \<open>
  \<^verbatim>\<open>dropna(subset=[...])\<close> over the three coerced columns (line 35): a row stays when
  none of its three values is missing.
\<close>

fun dropna :: "(timestamp option \<times> real option \<times> real option) list \<Rightarrow> row list" where
  "dropna [] = []"
| "dropna ((Some t, Some k, Some c) # xs) =
     \<lparr>Data_hora = t, Consumo_kwh = k, Custo_total = c\<rparr> # dropna xs"
| "dropna (_ # xs) = dropna xs"

text \<open>
  \<^verbatim>\<open>load_data\<close>, from the table read at line 11 on. The handler at line 38 catches
  every exception raised in between, reports it, and the function returns \<^verbatim>\<open>None\<close>,
  here \<open>Inl LoadFailure\<close>. There are two sources of exceptions. When a required name
  occurs more than once among the normalised names, \<^verbatim>\<open>data[name]\<close> is a frame of
  several columns, on which \<^verbatim>\<open>pd.to_datetime\<close> and \<^verbatim>\<open>pd.to_numeric\<close> raise. And
  each of the three coercions (lines 28, 31 and 32, in this order) may raise on its
  column. The return at line 22 is \<open>Inl MissingColumns\<close>.
\<close>

type_synonym ('c, 'v) coercion = "'c list \<Rightarrow> ('c \<Rightarrow> 'v option) option"

definition load_data ::
  "('c, timestamp) coercion \<Rightarrow> ('c, real) coercion \<Rightarrow> 'c csv_frame \<Rightarrow> error + frame" where
  "load_data to_datetime to_numeric data =
     (let names = map normalize_column (columns data)
      in if \<not> set required_columns \<subseteq> set names then Inl MissingColumns
         else if list_ex (\<lambda>name. count_list names name \<noteq> 1) required_columns
         then Inl LoadFailure
         else
           let data_hora = getitem names (cells data) ''Data/hora'';
               consumo_kwh = getitem names (cells data) ''Consumo_kwh'';
               custo_total = getitem names (cells data) ''Custo_total''
           in case to_datetime data_hora of
                None \<Rightarrow> Inl LoadFailure
              | Some datetime_of \<Rightarrow>
                  (case to_numeric consumo_kwh of
                     None \<Rightarrow> Inl LoadFailure
                   | Some consumo_of \<Rightarrow>
                       (case to_numeric custo_total of
                          None \<Rightarrow> Inl LoadFailure
                        | Some custo_of \<Rightarrow>
                            Inr \<lparr>rows = dropna (zip (map datetime_of data_hora)
                                                  (zip (map consumo_of consumo_kwh)
                                                       (map custo_of custo_total))),
                                 Dia = None, Hora = None\<rparr>)))"

section \<open>The date filter\<close>

text \<open>\<^verbatim>\<open>data[mask]\<close>: the entries of a column at which the mask is true.\<close>

definition boolean_mask :: "bool list \<Rightarrow> 'a list \<Rightarrow> 'a list" where
  "boolean_mask keep xs = map snd (filter fst (zip keep xs))"

text \<open>
  \<^verbatim>\<open>display_filtered_data\<close> (lines 45 to 48): both bounds go through
  \<^verbatim>\<open>pd.to_datetime\<close>, and the result is a new frame with the rows inside the bounds.
\<close>

definition display_filtered_data :: "frame \<Rightarrow> date \<Rightarrow> date \<Rightarrow> frame" where
  "display_filtered_data data start_date end_date =
     (let keep = map (\<lambda>r. Data_hora r \<ge> to_datetime_date start_date \<and>
                           Data_hora r \<le> to_datetime_date end_date) (rows data)
      in \<lparr>rows = boolean_mask keep (rows data),
          Dia = map_option (boolean_mask keep) (Dia data),
          Hora = map_option (boolean_mask keep) (Hora data)\<rparr>)"

section \<open>The aggregators\<close>

text \<open>
  \<^verbatim>\<open>groupby(key)[value].sum()\<close> and \<^verbatim>\<open>.mean()\<close>: one entry per distinct key, keys in
  ascending order, with the sum (the mean) of the values of the rows that have the key,
  in the order of the rows. The parameter \<open>fsum\<close> (\<open>fmean\<close>) is the \<^verbatim>\<open>float64\<close> sum
  (mean) that pandas computes for a list of values.
\<close>

definition group_values :: "('k \<times> real) list \<Rightarrow> 'k \<Rightarrow> real list" where
  "group_values kvs k = map snd (filter (\<lambda>kv. fst kv = k) kvs)"

definition groupby_sum ::
  "(real list \<Rightarrow> real) \<Rightarrow> ('k::linorder \<times> real) list \<Rightarrow> ('k \<times> real) list" where
  "groupby_sum fsum kvs =
     map (\<lambda>k. (k, fsum (group_values kvs k))) (sort (remdups (map fst kvs)))"

definition groupby_mean ::
  "(real list \<Rightarrow> real) \<Rightarrow> ('k::linorder \<times> real) list \<Rightarrow> ('k \<times> real) list" where
  "groupby_mean fmean kvs =
     map (\<lambda>k. (k, fmean (group_values kvs k))) (sort (remdups (map fst kvs)))"

text \<open>
  \<^verbatim>\<open>Series.idxmax()\<close>: the label of the first entry that holds the maximum; on an empty
  series pandas raises \<^verbatim>\<open>ValueError\<close>.
\<close>

fun idxmax_from :: "'k \<times> real \<Rightarrow> ('k \<times> real) list \<Rightarrow> 'k" where
  "idxmax_from (k, v) [] = k"
| "idxmax_from (k, v) ((k', v') # xs) =
     (if v' > v then idxmax_from (k', v') xs else idxmax_from (k, v) xs)"

definition idxmax :: "('k \<times> real) list \<Rightarrow> error + 'k" where
  "idxmax s = (case s of [] \<Rightarrow> Inl ValueError | kv # xs \<Rightarrow> Inr (idxmax_from kv xs))"

text \<open>\<^verbatim>\<open>Series.between(lo, hi)\<close>, both ends included.\<close>

definition between :: "int \<Rightarrow> int \<Rightarrow> int \<Rightarrow> bool" where
  "between x lo hi = (lo \<le> x \<and> x \<le> hi)"

text \<open>
  The three functions draw a chart and return nothing. The model returns the frame as
  the call leaves it (the argument is modified in place at lines 53, 68 and 81) and the
  series handed to the chart; \<^verbatim>\<open>plot_consumo_por_dia\<close> also yields the day it prints,
  or the exception that \<^verbatim>\<open>idxmax\<close> raises at line 55, before anything is drawn.
  In \<open>plot_distribuicao_consumo\<close> the parameter \<open>fsum\<close> is \<^verbatim>\<open>Series.sum()\<close>.
\<close>

definition plot_consumo_por_dia ::
  "(real list \<Rightarrow> real) \<Rightarrow> frame \<Rightarrow> frame \<times> (error + (date \<times> real) list \<times> date)" where
  "plot_consumo_por_dia fsum data =
     (let dia = map (\<lambda>r. dt_date (Data_hora r)) (rows data);
          data' = data\<lparr>Dia := Some dia\<rparr>;
          consumo_diario = groupby_sum fsum (zip dia (map Consumo_kwh (rows data')))
      in (data', case idxmax consumo_diario of
                   Inl e \<Rightarrow> Inl e
                 | Inr dia_maior_consumo \<Rightarrow> Inr (consumo_diario, dia_maior_consumo)))"

definition plot_consumo_horario_medio ::
  "(real list \<Rightarrow> real) \<Rightarrow> frame \<Rightarrow> frame \<times> (int \<times> real) list" where
  "plot_consumo_horario_medio fmean data =
     (let hora = map (\<lambda>r. dt_hour (Data_hora r)) (rows data);
          data' = data\<lparr>Hora := Some hora\<rparr>;
          consumo_horario = groupby_mean fmean (zip hora (map Consumo_kwh (rows data')))
      in (data', consumo_horario))"

definition plot_distribuicao_consumo ::
  "(real list \<Rightarrow> real) \<Rightarrow> frame \<Rightarrow> frame \<times> (string \<times> real) list" where
  "plot_distribuicao_consumo fsum data =
     (let hora = map (\<lambda>r. dt_hour (Data_hora r)) (rows data);
          data' = data\<lparr>Hora := Some hora\<rparr>;
          consumo = zip hora (map Consumo_kwh (rows data'));
          pico_consumo = fsum (map snd (filter (\<lambda>hc. between (fst hc) 18 23) consumo));
          noturno_consumo = fsum (map snd (filter (\<lambda>hc. between (fst hc) 0 5) consumo));
          outros_consumo =
            fsum (map snd (filter (\<lambda>hc. \<not> between (fst hc) 18 23)
                             (filter (\<lambda>hc. \<not> between (fst hc) 0 5) consumo)));
          categorias = [''Pico (18h-23h)'', ''Noturno (0h-5h)'', ''Outros''];
          valores = [pico_consumo, noturno_consumo, outros_consumo]
      in (data', zip categorias valores))"

section \<open>The loader row by row\<close>

text \<open>
  The specification describes the loader one row at a time: each of the three fields of
  a row is parsed, and the row is kept when all three parsed. These definitions say that
  in terms of the rows of the table; \<open>column_of\<close> is the column that has the given
  name after normalisation and \<open>field\<close> is the cell of a row in that column.
\<close>

definition column_of :: "'c csv_frame \<Rightarrow> string \<Rightarrow> 'c list" where
  "column_of data name = getitem (map normalize_column (columns data)) (cells data) name"

definition field :: "'c csv_frame \<Rightarrow> string \<Rightarrow> 'c list \<Rightarrow> 'c" where
  "field data name cs = cs ! index_of name (map normalize_column (columns data))"

definition parsed_Data_hora ::
  "('c, timestamp) coercion \<Rightarrow> 'c csv_frame \<Rightarrow> 'c list \<Rightarrow> timestamp option" where
  "parsed_Data_hora to_datetime data cs =
     (case to_datetime (column_of data ''Data/hora'') of
        None \<Rightarrow> None
      | Some datetime_of \<Rightarrow> datetime_of (field data ''Data/hora'' cs))"

definition parsed_Consumo_kwh ::
  "('c, real) coercion \<Rightarrow> 'c csv_frame \<Rightarrow> 'c list \<Rightarrow> real option" where
  "parsed_Consumo_kwh to_numeric data cs =
     (case to_numeric (column_of data ''Consumo_kwh'') of
        None \<Rightarrow> None
      | Some consumo_of \<Rightarrow> consumo_of (field data ''Consumo_kwh'' cs))"

definition parsed_Custo_total ::
  "('c, real) coercion \<Rightarrow> 'c csv_frame \<Rightarrow> 'c list \<Rightarrow> real option" where
  "parsed_Custo_total to_numeric data cs =
     (case to_numeric (column_of data ''Custo_total'') of
        None \<Rightarrow> None
      | Some custo_of \<Rightarrow> custo_of (field data ''Custo_total'' cs))"

definition all_parsed ::
  "('c, timestamp) coercion \<Rightarrow> ('c, real) coercion \<Rightarrow> 'c csv_frame \<Rightarrow> 'c list \<Rightarrow> bool" where
  "all_parsed to_datetime to_numeric data cs =
     (parsed_Data_hora to_datetime data cs \<noteq> None \<and>
      parsed_Consumo_kwh to_numeric data cs \<noteq> None \<and>
      parsed_Custo_total to_numeric data cs \<noteq> None)"

definition record_of ::
  "('c, timestamp) coercion \<Rightarrow> ('c, real) coercion \<Rightarrow> 'c csv_frame \<Rightarrow> 'c list \<Rightarrow> row" where
  "record_of to_datetime to_numeric data cs =
     \<lparr>Data_hora = the (parsed_Data_hora to_datetime data cs),
      Consumo_kwh = the (parsed_Consumo_kwh to_numeric data cs),
      Custo_total = the (parsed_Custo_total to_numeric data cs)\<rparr>"

text \<open>None of the three coercions raises on its column of the table.\<close>

definition coercions_return ::
  "('c, timestamp) coercion \<Rightarrow> ('c, real) coercion \<Rightarrow> 'c csv_frame \<Rightarrow> bool" where
  "coercions_return to_datetime to_numeric data =
     (to_datetime (column_of data ''Data/hora'') \<noteq> None \<and>
      to_numeric (column_of data ''Consumo_kwh'') \<noteq> None \<and>
      to_numeric (column_of data ''Custo_total'') \<noteq> None)"

section \<open>The days and the bands of the specification\<close>

text \<open>
  \<open>day_values\<close> is the list of the consumptions of the records of a calendar date, in
  the order of the records. Peak is the hours 18 to 23, Night the hours 0 to 5 and
  Other the hours 6 to 17; \<open>band_values\<close> is the list of the consumptions of the
  records whose hour lies in a band.
\<close>

definition day_values :: "row list \<Rightarrow> date \<Rightarrow> real list" where
  "day_values rs d = map Consumo_kwh (filter (\<lambda>r. dt_date (Data_hora r) = d) rs)"

definition in_peak :: "int \<Rightarrow> bool" where
  "in_peak h = (18 \<le> h \<and> h \<le> 23)"

definition in_night :: "int \<Rightarrow> bool" where
  "in_night h = (0 \<le> h \<and> h \<le> 5)"

definition in_other :: "int \<Rightarrow> bool" where
  "in_other h = (6 \<le> h \<and> h \<le> 17)"

definition band_values :: "(int \<Rightarrow> bool) \<Rightarrow> row list \<Rightarrow> real list" where
  "band_values in_band rs =
     map Consumo_kwh (filter (\<lambda>r. in_band (dt_hour (Data_hora r))) rs)"

section \<open>Example inputs\<close>

text \<open>
  Two coercions for the examples. They raise on no column; on the cells listed they
  return what pandas returns for these texts, and every other cell counts as one that
  does not parse.
\<close>

definition sample_to_datetime :: "(string, timestamp) coercion" where
  "sample_to_datetime col =
     Some (map_of [(''2024-01-01 19:00'', at_time (ymd 2024 1 1) 19 0),
                   (''2024-01-01 02:00'', at_time (ymd 2024 1 1) 2 0),
                   (''2024-01-02 19:00'', at_time (ymd 2024 1 2) 19 0)])"

definition sample_to_numeric :: "(string, real) coercion" where
  "sample_to_numeric col =
     Some (map_of [(''5'', 5), (''3'', 3), (''4'', 4), (''-5'', - 5),
                   (''10.0'', 10), (''6.0'', 6), (''8.0'', 8)])"

text \<open>
  The \<^verbatim>\<open>float64\<close> sum and mean for the examples. The lists of the examples hold
  small integers, whose sums and means (8, 9, 4.5 and the like) \<^verbatim>\<open>float64\<close> computes
  without rounding, and the list of \<^verbatim>\<open>1e16\<close> and 1: the sum \<^verbatim>\<open>1e16 + 1\<close> is not a
  \<^verbatim>\<open>float64\<close> number (at this size the numbers of \<^verbatim>\<open>float64\<close> are two apart) and
  is rounded to \<^verbatim>\<open>1e16\<close>.
\<close>

definition sample_sum :: "real list \<Rightarrow> real" where
  "sample_sum xs =
     (if xs = [10000000000000000, 1] then 10000000000000000 else sum_list xs)"

definition sample_mean :: "real list \<Rightarrow> real" where
  "sample_mean xs = sum_list xs / real (length xs)"

text \<open>The three records of the end-to-end scenario of the specification.\<close>

definition scenario :: frame where
  "scenario =
     \<lparr>rows = [\<lparr>Data_hora = at_time (ymd 2024 1 1) 19 0, Consumo_kwh = 5, Custo_total = 10\<rparr>,
              \<lparr>Data_hora = at_time (ymd 2024 1 1) 2 0, Consumo_kwh = 3, Custo_total = 6\<rparr>,
              \<lparr>Data_hora = at_time (ymd 2024 1 2) 19 0, Consumo_kwh = 4, Custo_total = 8\<rparr>],
      Dia = None, Hora = None\<rparr>"

text \<open>
  Records with a large consumption: one on 2024-01-01 and two on 2024-01-02, and two
  in the evening of one day.
\<close>

definition large_days :: frame where
  "large_days =
     \<lparr>rows = [\<lparr>Data_hora = at_time (ymd 2024 1 1) 19 0, Consumo_kwh = 10000000000000000,
                Custo_total = 10\<rparr>,
              \<lparr>Data_hora = at_time (ymd 2024 1 2) 19 0, Consumo_kwh = 10000000000000000,
                Custo_total = 10\<rparr>,
              \<lparr>Data_hora = at_time (ymd 2024 1 2) 20 0, Consumo_kwh = 1, Custo_total = 1\<rparr>],
      Dia = None, Hora = None\<rparr>"

definition large_evening :: frame where
  "large_evening =
     \<lparr>rows = [\<lparr>Data_hora = at_time (ymd 2024 1 1) 19 0, Consumo_kwh = 10000000000000000,
                Custo_total = 10\<rparr>,
              \<lparr>Data_hora = at_time (ymd 2024 1 1) 20 0, Consumo_kwh = 1, Custo_total = 1\<rparr>],
      Dia = None, Hora = None\<rparr>"

text \<open>The three rows of the scenario as a table read from a file, with a column of remarks.\<close>

definition scenario_csv :: "string csv_frame" where
  "scenario_csv =
     \<lparr>columns = [''Data/Hora'', '' consumo kWh'', ''Obs'', ''custo total''],
      cells = [[''2024-01-01 19:00'', ''5'', ''a'', ''10.0''],
               [''2024-01-01 02:00'', ''3'', ''b'', ''6.0''],
               [''2024-01-02 19:00'', ''4'', ''c'', ''8.0'']]\<rparr>"

text \<open>
  Tables for the examples of the loader: one without a cost column, one with a
  negative consumption, one in which a fourth column has the normalised name of the
  consumption column, and the latter without that fourth column.
\<close>

definition no_cost_csv :: "string csv_frame" where
  "no_cost_csv =
     \<lparr>columns = [''Data/hora'', '' consumo kWh''],
      cells = [[''2024-01-01 19:00'', ''5'']]\<rparr>"

definition negative_csv :: "string csv_frame" where
  "negative_csv =
     \<lparr>columns = [''Data/hora'', ''Consumo_kwh'', ''Custo_total''],
      cells = [[''2024-01-01 19:00'', ''-5'', ''10.0'']]\<rparr>"

definition duplicate_csv :: "string csv_frame" where
  "duplicate_csv =
     \<lparr>columns = [''Data/hora'', ''Consumo_kwh'', ''Custo_total'', ''consumo kwh''],
      cells = [[''2024-01-01 19:00'', ''5'', ''10.0'', ''3'']]\<rparr>"

definition plain_csv :: "string csv_frame" where
  "plain_csv =
     \<lparr>columns = [''Data/hora'', ''Consumo_kwh'', ''Custo_total''],
      cells = [[''2024-01-01 19:00'', ''5'', ''10.0'']]\<rparr>"

section \<open>Auxiliary facts\<close>

lemma dt_hour_range: "0 \<le> dt_hour t \<and> dt_hour t \<le> 23"
proof -
  let ?x = "t mod ns_per_day"
  have lo: "0 \<le> ?x" and hi: "?x \<le> 86399999999999"
    by (simp_all add: ns_per_day_def)
  have "?x div ns_per_hour \<le> 86399999999999 div ns_per_hour"
    using hi by (intro zdiv_mono1) (simp_all add: ns_per_hour_def)
  then have "dt_hour t \<le> 23"
    by (simp add: dt_hour_def ns_per_hour_def)
  moreover have "0 \<le> dt_hour t"
    unfolding dt_hour_def using lo by (simp add: ns_per_hour_def pos_imp_zdiv_nonneg_iff)
  ultimately show ?thesis by simp
qed

lemma values_filter_zip_map:
  "map snd (filter (\<lambda>kv. P (fst kv)) (zip (map f xs) (map g xs))) =
   map g (filter (\<lambda>x. P (f x)) xs)"
  by (induction xs) simp_all

lemma group_values_zip_map:
  "group_values (zip (map f xs) (map g xs)) k = map g (filter (\<lambda>x. f x = k) xs)"
  unfolding group_values_def by (rule values_filter_zip_map [where P = "\<lambda>k'. k' = k"])

lemma group_sums_total:
  fixes kvs :: "('k \<times> real) list"
  assumes "finite K" and "fst ` set kvs \<subseteq> K"
  shows "(\<Sum>k\<in>K. sum_list (group_values kvs k)) = sum_list (map snd kvs)"
  using assms(2)
proof (induction kvs)
  case Nil
  then show ?case by (simp add: group_values_def)
next
  case (Cons kv kvs)
  have in_K: "fst kv \<in> K" using Cons.prems by simp
  have "(\<Sum>k\<in>K. sum_list (group_values (kv # kvs) k)) =
        (\<Sum>k\<in>K. (if fst kv = k then snd kv else 0) + sum_list (group_values kvs k))"
    by (rule sum.cong) (simp_all add: group_values_def)
  also have "\<dots> = (\<Sum>k\<in>K. if fst kv = k then snd kv else 0) +
                   (\<Sum>k\<in>K. sum_list (group_values kvs k))"
    by (simp add: sum.distrib)
  also have "(\<Sum>k\<in>K. if fst kv = k then snd kv else 0) = snd kv"
    using assms(1) in_K by simp
  also have "(\<Sum>k\<in>K. sum_list (group_values kvs k)) = sum_list (map snd kvs)"
    using Cons by simp
  finally show ?case by simp
qed

lemma groupby_sum_keys: "map fst (groupby_sum fsum kvs) = sort (remdups (map fst kvs))"
  by (simp add: groupby_sum_def comp_def)

lemma groupby_sum_values:
  "map snd (groupby_sum fsum kvs) =
   map (\<lambda>k. fsum (group_values kvs k)) (map fst (groupby_sum fsum kvs))"
  by (simp add: groupby_sum_def comp_def)

text \<open>Where the sum of every group is exact, the group sums add up to the sum of all.\<close>

lemma groupby_sum_total:
  assumes "\<forall>k\<in>set (map fst kvs). fsum (group_values kvs k) = sum_list (group_values kvs k)"
  shows "sum_list (map snd (groupby_sum fsum kvs)) = sum_list (map snd kvs)"
proof -
  let ?ks = "sort (remdups (map fst kvs))"
  have d: "distinct ?ks" by simp
  have "map snd (groupby_sum fsum kvs) = map (\<lambda>k. fsum (group_values kvs k)) ?ks"
    by (simp add: groupby_sum_def comp_def)
  also have "\<dots> = map (\<lambda>k. sum_list (group_values kvs k)) ?ks"
    using assms by (intro map_cong) auto
  finally have "sum_list (map snd (groupby_sum fsum kvs)) =
        sum_list (map (\<lambda>k. sum_list (group_values kvs k)) ?ks)"
    by simp
  also have "\<dots> = (\<Sum>k\<in>set ?ks. sum_list (group_values kvs k))"
    using d by (rule sum_list_distinct_conv_sum_set)
  also have "\<dots> = sum_list (map snd kvs)"
    by (rule group_sums_total) simp_all
  finally show ?thesis .
qed

lemma idxmax_nonempty: "s \<noteq> [] \<Longrightarrow> \<exists>k. idxmax s = Inr k"
  by (cases s) (simp_all add: idxmax_def)

lemma groupby_sum_empty_iff: "groupby_sum fsum kvs = [] \<longleftrightarrow> kvs = []"
proof -
  have "length (sort (remdups (map fst kvs))) = length (remdups (map fst kvs))"
    by simp
  then have "sort (remdups (map fst kvs)) = [] \<longleftrightarrow> remdups (map fst kvs) = []"
    by (metis length_0_conv)
  then show ?thesis by (simp add: groupby_sum_def)
qed

section \<open>The date filter on a single day\<close>

lemma rows_display_filtered_data:
  "rows (display_filtered_data data start_date end_date) =
   filter (\<lambda>r. to_datetime_date start_date \<le> Data_hora r \<and>
                Data_hora r \<le> to_datetime_date end_date) (rows data)"
proof -
  have "boolean_mask (map P xs) xs = filter P xs" for P :: "row \<Rightarrow> bool" and xs
    by (induction xs) (simp_all add: boolean_mask_def)
  then show ?thesis
    by (simp add: display_filtered_data_def Let_def)
qed

text \<open>
  C1. The claim: the filter keeps the records from the start of \<open>start_date\<close> through
  any time on \<open>end_date\<close>, so that with both dates equal to \<open>D\<close> it keeps the records
  of day \<open>D\<close>. The code compares with midnight at the start of \<open>end_date\<close>: with both
  dates 2024-01-01, the record of 2024-01-01 19:00, whose date is that day, is left
  out, and the result is empty.
\<close>

theorem display_filtered_data_drops_end_day:
  "dt_date (at_time (ymd 2024 1 1) 19 0) = ymd 2024 1 1 \<and>
   rows (display_filtered_data
           \<lparr>rows = [\<lparr>Data_hora = at_time (ymd 2024 1 1) 19 0, Consumo_kwh = 5,
                      Custo_total = 10\<rparr>], Dia = None, Hora = None\<rparr>
           (ymd 2024 1 1) (ymd 2024 1 1)) = []"
  by (simp add: rows_display_filtered_data to_datetime_date_def dt_date_def at_time_def
      ymd_def ns_per_day_def ns_per_hour_def)

section \<open>The aggregators and their argument\<close>

text \<open>
  C2, as stated: after an aggregator has run, the frame it was given is the one that
  was passed in. It is not: \<open>plot_consumo_por_dia\<close> leaves a column \<^verbatim>\<open>'Dia'\<close> in it.
\<close>

theorem aggregator_changes_frame_counterexample:
  "fst (plot_consumo_por_dia sample_sum scenario) \<noteq> scenario"
  by (simp add: plot_consumo_por_dia_def scenario_def Let_def)

text \<open>
  C2, amended: no aggregator changes the records of the frame it is given (their
  timestamps, consumptions, costs, number and order). Each one adds a derived column to
  that frame: \<open>plot_consumo_por_dia\<close> sets \<^verbatim>\<open>'Dia'\<close> to the dates of the rows, the other
  two set \<^verbatim>\<open>'Hora'\<close> to their hours, and nothing else changes.
\<close>

theorem aggregators_keep_records:
  "fst (plot_consumo_por_dia fsum data) =
     data\<lparr>Dia := Some (map (\<lambda>r. dt_date (Data_hora r)) (rows data))\<rparr> \<and>
   fst (plot_consumo_horario_medio fmean data) =
     data\<lparr>Hora := Some (map (\<lambda>r. dt_hour (Data_hora r)) (rows data))\<rparr> \<and>
   fst (plot_distribuicao_consumo fsum data) =
     data\<lparr>Hora := Some (map (\<lambda>r. dt_hour (Data_hora r)) (rows data))\<rparr> \<and>
   rows (fst (plot_consumo_por_dia fsum data)) = rows data \<and>
   rows (fst (plot_consumo_horario_medio fmean data)) = rows data \<and>
   rows (fst (plot_distribuicao_consumo fsum data)) = rows data"
  by (simp add: plot_consumo_por_dia_def plot_consumo_horario_medio_def
      plot_distribuicao_consumo_def Let_def)

section \<open>No records\<close>

text \<open>
  C4. The claim: on the empty record sequence every aggregator completes, with empty
  or zero outputs and an absent maximum. The hourly averages are empty and the three
  band totals are zero, but \<open>plot_consumo_por_dia\<close> asks the empty series of daily
  totals for its maximum and ends with the \<^verbatim>\<open>ValueError\<close> of \<^verbatim>\<open>idxmax\<close>, whatever the
  arithmetic of the sums.
\<close>

theorem plot_consumo_por_dia_empty_raises:
  "snd (plot_consumo_por_dia fsum \<lparr>rows = [], Dia = None, Hora = None\<rparr>) = Inl ValueError \<and>
   snd (plot_consumo_horario_medio fmean \<lparr>rows = [], Dia = None, Hora = None\<rparr>) = [] \<and>
   snd (plot_distribuicao_consumo sample_sum \<lparr>rows = [], Dia = None, Hora = None\<rparr>) =
     [(''Pico (18h-23h)'', 0), (''Noturno (0h-5h)'', 0), (''Outros'', 0)]"
  by (simp add: plot_consumo_por_dia_def plot_consumo_horario_medio_def
      plot_distribuicao_consumo_def groupby_sum_def groupby_mean_def idxmax_def Let_def
      sample_sum_def)

section \<open>Daily totals\<close>

text \<open>
  C7, as stated: the daily totals add up to the consumption of all records. Each daily
  total is a \<^verbatim>\<open>float64\<close> sum and is rounded. With \<^verbatim>\<open>1e16\<close> on 2024-01-01 and
  \<^verbatim>\<open>1e16\<close> and 1 on 2024-01-02, the total of the second day is \<^verbatim>\<open>1e16\<close>, and the two
  totals add up to one less than the three consumptions.
\<close>

theorem daily_totals_rounding_counterexample:
  "rows large_days \<noteq> [] \<and>
   snd (plot_consumo_por_dia sample_sum large_days) =
     Inr ([(ymd 2024 1 1, 10000000000000000), (ymd 2024 1 2, 10000000000000000)],
          ymd 2024 1 1) \<and>
   sum_list (map snd [(ymd 2024 1 1, 10000000000000000 :: real),
                       (ymd 2024 1 2, 10000000000000000)]) = 20000000000000000 \<and>
   sum_list (map Consumo_kwh (rows large_days)) = 20000000000000001"
  by code_simp

text \<open>
  C7, amended: for a frame with at least one record, \<open>plot_consumo_por_dia\<close> returns
  daily totals and a day; the dates of the totals are in ascending order without
  repetition and are the dates that occur in the records; the total of a date is the
  \<^verbatim>\<open>float64\<close> sum of the consumptions of the records of that date; and when each of
  these sums is exact (equal to the sum of its values as real numbers), the totals add
  up to the consumption of all records.
\<close>

theorem daily_totals_conservation_when_exact:
  assumes "rows data \<noteq> []"
  shows "\<exists>consumo_diario dia.
           snd (plot_consumo_por_dia fsum data) = Inr (consumo_diario, dia) \<and>
           sorted (map fst consumo_diario) \<and> distinct (map fst consumo_diario) \<and>
           set (map fst consumo_diario) = (\<lambda>r. dt_date (Data_hora r)) ` set (rows data) \<and>
           map snd consumo_diario =
             map (\<lambda>d. fsum (day_values (rows data) d)) (map fst consumo_diario) \<and>
           ((\<forall>d\<in>set (map fst consumo_diario).
               fsum (day_values (rows data) d) = sum_list (day_values (rows data) d)) \<longrightarrow>
            sum_list (map snd consumo_diario) = sum_list (map Consumo_kwh (rows data)))"
proof -
  let ?date = "\<lambda>r. dt_date (Data_hora r)"
  let ?dia = "map ?date (rows data)"
  let ?kvs = "zip ?dia (map Consumo_kwh (rows data))"
  let ?totals = "groupby_sum fsum ?kvs"
  have keys: "map fst ?kvs = ?dia" and vals: "map snd ?kvs = map Consumo_kwh (rows data)"
    by simp_all
  have group: "group_values ?kvs d = day_values (rows data) d" for d
    by (simp only: group_values_zip_map day_values_def)
  have "?kvs \<noteq> []" using assms by simp
  then have "?totals \<noteq> []" by (simp only: groupby_sum_empty_iff not_False_eq_True)
  then obtain d where d: "idxmax ?totals = Inr d"
    using idxmax_nonempty by blast
  have res: "snd (plot_consumo_por_dia fsum data) = Inr (?totals, d)"
    by (simp add: plot_consumo_por_dia_def Let_def d)
  have k: "map fst ?totals = sort (remdups ?dia)"
    by (simp only: groupby_sum_keys keys)
  have order: "sorted (map fst ?totals)" "distinct (map fst ?totals)"
    and dates: "set (map fst ?totals) = ?date ` set (rows data)"
    by (simp_all add: k)
  have each: "map snd ?totals = map (\<lambda>d. fsum (day_values (rows data) d)) (map fst ?totals)"
    using groupby_sum_values [of fsum ?kvs] by (simp only: group)
  have total: "sum_list (map snd ?totals) = sum_list (map Consumo_kwh (rows data))"
    if exact: "\<forall>d\<in>set (map fst ?totals).
                 fsum (day_values (rows data) d) = sum_list (day_values (rows data) d)"
  proof -
    have "set (map fst ?kvs) = set (map fst ?totals)"
      by (simp add: k)
    with exact have "\<forall>k\<in>set (map fst ?kvs).
                       fsum (group_values ?kvs k) = sum_list (group_values ?kvs k)"
      by (simp only: group)
    then have "sum_list (map snd ?totals) = sum_list (map snd ?kvs)"
      by (rule groupby_sum_total)
    then show ?thesis by (simp only: vals)
  qed
  from res order dates each total show ?thesis by blast
qed

theorem daily_totals_conservation_when_exact_witness:
  "\<exists>consumo_diario dia.
     snd (plot_consumo_por_dia sample_sum scenario) = Inr (consumo_diario, dia) \<and>
     sorted (map fst consumo_diario) \<and> distinct (map fst consumo_diario) \<and>
     set (map fst consumo_diario) = (\<lambda>r. dt_date (Data_hora r)) ` set (rows scenario) \<and>
     sum_list (map snd consumo_diario) = sum_list (map Consumo_kwh (rows scenario))"
proof -
  have h: "rows scenario \<noteq> []" by (simp add: scenario_def)
  have exact: "sample_sum (day_values (rows scenario) d) =
               sum_list (day_values (rows scenario) d)" for d
    by (simp add: sample_sum_def day_values_def scenario_def)
  from daily_totals_conservation_when_exact [OF h, of sample_sum] exact
  show ?thesis by blast
qed

section \<open>Bands\<close>

lemma hour_in_one_band:
  "of_bool (in_peak (dt_hour t)) + of_bool (in_night (dt_hour t)) +
   of_bool (in_other (dt_hour t)) = (1::nat)"
  using dt_hour_range [of t] by (simp add: in_peak_def in_night_def in_other_def)

lemma band_totals_of_plot:
  "snd (plot_distribuicao_consumo fsum data) =
     [(''Pico (18h-23h)'', fsum (band_values in_peak (rows data))),
      (''Noturno (0h-5h)'', fsum (band_values in_night (rows data))),
      (''Outros'', fsum (band_values in_other (rows data)))]"
proof -
  let ?h = "\<lambda>r. dt_hour (Data_hora r)"
  let ?consumo = "zip (map ?h (rows data)) (map Consumo_kwh (rows data))"
  have other: "(\<not> between (?h r) 18 23 \<and> \<not> between (?h r) 0 5) = in_other (?h r)"
    for r :: row
    using dt_hour_range [of "Data_hora r"] by (auto simp: between_def in_other_def)
  have "filter (\<lambda>hc. \<not> between (fst hc) 18 23) (filter (\<lambda>hc. \<not> between (fst hc) 0 5) ?consumo) =
        filter (\<lambda>hc. \<not> between (fst hc) 18 23 \<and> \<not> between (fst hc) 0 5) ?consumo"
    by (simp add: conj_commute)
  then have "map snd (filter (\<lambda>hc. \<not> between (fst hc) 18 23)
                        (filter (\<lambda>hc. \<not> between (fst hc) 0 5) ?consumo)) =
        map Consumo_kwh
          (filter (\<lambda>r. \<not> between (?h r) 18 23 \<and> \<not> between (?h r) 0 5) (rows data))"
    by (simp only: values_filter_zip_map
        [where P = "\<lambda>h. \<not> between h 18 23 \<and> \<not> between h 0 5"])
  then have outros: "map snd (filter (\<lambda>hc. \<not> between (fst hc) 18 23)
                        (filter (\<lambda>hc. \<not> between (fst hc) 0 5) ?consumo)) =
        band_values in_other (rows data)"
    by (simp only: other band_values_def)
  have pico: "map snd (filter (\<lambda>hc. between (fst hc) 18 23) ?consumo) =
        band_values in_peak (rows data)"
    using values_filter_zip_map [where P = "\<lambda>h. between h 18 23" and f = ?h
        and g = Consumo_kwh and xs = "rows data"]
    by (simp add: band_values_def in_peak_def between_def)
  have noturno: "map snd (filter (\<lambda>hc. between (fst hc) 0 5) ?consumo) =
        band_values in_night (rows data)"
    using values_filter_zip_map [where P = "\<lambda>h. between h 0 5" and f = ?h
        and g = Consumo_kwh and xs = "rows data"]
    by (simp add: band_values_def in_night_def between_def)
  have "snd (plot_distribuicao_consumo fsum data) =
     [(''Pico (18h-23h)'', fsum (map snd (filter (\<lambda>hc. between (fst hc) 18 23) ?consumo))),
      (''Noturno (0h-5h)'', fsum (map snd (filter (\<lambda>hc. between (fst hc) 0 5) ?consumo))),
      (''Outros'', fsum (map snd (filter (\<lambda>hc. \<not> between (fst hc) 18 23)
                                    (filter (\<lambda>hc. \<not> between (fst hc) 0 5) ?consumo))))]"
    unfolding plot_distribuicao_consumo_def Let_def by simp
  then show ?thesis
    by (simp only: pico noturno outros)
qed

lemma band_values_sum:
  "sum_list (band_values in_peak rs) + sum_list (band_values in_night rs) +
   sum_list (band_values in_other rs) = sum_list (map Consumo_kwh rs)"
proof (induction rs)
  case Nil
  then show ?case by (simp add: band_values_def)
next
  case (Cons r rs)
  have "of_bool (in_peak (dt_hour (Data_hora r))) + of_bool (in_night (dt_hour (Data_hora r))) +
        of_bool (in_other (dt_hour (Data_hora r))) = (1::nat)"
    by (rule hour_in_one_band)
  then show ?case
    using Cons.IH by (auto simp: band_values_def split: if_splits)
qed

text \<open>
  C8, as stated: the three band totals add up to the consumption of all records. Each
  band total is a \<^verbatim>\<open>float64\<close> sum and is rounded. With \<^verbatim>\<open>1e16\<close> at 19:00 and 1 at
  20:00, both in the Peak band, the Peak total is \<^verbatim>\<open>1e16\<close>, the other two are zero,
  and the three add up to one less than the two consumptions.
\<close>

theorem band_totals_rounding_counterexample:
  "snd (plot_distribuicao_consumo sample_sum large_evening) =
     [(''Pico (18h-23h)'', 10000000000000000), (''Noturno (0h-5h)'', 0), (''Outros'', 0)] \<and>
   sum_list (map snd [(''Pico (18h-23h)'', 10000000000000000 :: real),
                       (''Noturno (0h-5h)'', 0), (''Outros'', 0)]) = 10000000000000000 \<and>
   sum_list (map Consumo_kwh (rows large_evening)) = 10000000000000001"
  by code_simp

text \<open>
  C8, amended: the hour of every timestamp lies in exactly one of the bands Peak (18 to
  23), Night (0 to 5) and Other (6 to 17); \<open>plot_distribuicao_consumo\<close> reports three
  entries, Peak, Night and Other in this order, each with the \<^verbatim>\<open>float64\<close> sum of the
  consumptions of the records of its band, also when the band has no record; and when
  the three sums are exact (equal to the sums of their values as real numbers), the
  three totals add up to the consumption of all records.
\<close>

theorem band_partition_when_exact:
  "of_bool (in_peak (dt_hour t)) + of_bool (in_night (dt_hour t)) +
     of_bool (in_other (dt_hour t)) = (1::nat) \<and>
   snd (plot_distribuicao_consumo fsum data) =
     [(''Pico (18h-23h)'', fsum (band_values in_peak (rows data))),
      (''Noturno (0h-5h)'', fsum (band_values in_night (rows data))),
      (''Outros'', fsum (band_values in_other (rows data)))] \<and>
   (fsum (band_values in_peak (rows data)) = sum_list (band_values in_peak (rows data)) \<and>
    fsum (band_values in_night (rows data)) = sum_list (band_values in_night (rows data)) \<and>
    fsum (band_values in_other (rows data)) = sum_list (band_values in_other (rows data)) \<longrightarrow>
    sum_list (map snd (snd (plot_distribuicao_consumo fsum data))) =
      sum_list (map Consumo_kwh (rows data)))"
proof -
  have "sum_list (map snd (snd (plot_distribuicao_consumo fsum data))) =
        fsum (band_values in_peak (rows data)) + fsum (band_values in_night (rows data)) +
        fsum (band_values in_other (rows data))"
    by (simp only: band_totals_of_plot) simp
  moreover have "sum_list (band_values in_peak (rows data)) +
        sum_list (band_values in_night (rows data)) +
        sum_list (band_values in_other (rows data)) = sum_list (map Consumo_kwh (rows data))"
    by (rule band_values_sum)
  ultimately have "fsum (band_values in_peak (rows data)) =
      sum_list (band_values in_peak (rows data)) \<and>
    fsum (band_values in_night (rows data)) = sum_list (band_values in_night (rows data)) \<and>
    fsum (band_values in_other (rows data)) = sum_list (band_values in_other (rows data)) \<longrightarrow>
    sum_list (map snd (snd (plot_distribuicao_consumo fsum data))) =
      sum_list (map Consumo_kwh (rows data))"
    by simp
  then show ?thesis
    using hour_in_one_band [of t] band_totals_of_plot [of fsum data] by blast
qed

theorem band_partition_when_exact_witness:
  "snd (plot_distribuicao_consumo sample_sum scenario) =
     [(''Pico (18h-23h)'', sample_sum (band_values in_peak (rows scenario))),
      (''Noturno (0h-5h)'', sample_sum (band_values in_night (rows scenario))),
      (''Outros'', sample_sum (band_values in_other (rows scenario)))] \<and>
   sum_list (map snd (snd (plot_distribuicao_consumo sample_sum scenario))) =
     sum_list (map Consumo_kwh (rows scenario))"
proof -
  have exact: "sample_sum (band_values in_band (rows scenario)) =
               sum_list (band_values in_band (rows scenario))" for in_band
    by (simp add: sample_sum_def band_values_def scenario_def)
  from band_partition_when_exact [of 0 sample_sum scenario] exact
  show ?thesis by blast
qed

section \<open>The scenario\<close>

text \<open>
  C9. On the three records (2024-01-01 19:00, 5, 10.0), (2024-01-01 02:00, 3, 6.0) and
  (2024-01-02 19:00, 4, 8.0), run through the three aggregators one after the other as
  the program does: the daily totals are 8 for 2024-01-01 and 4 for 2024-01-02, the day
  of the maximum is 2024-01-01, the hourly averages are 3 at hour 2 and 4.5 at hour 19,
  and the band totals are 9 for Peak, 3 for Night and 0 for Other. The sums and means
  of these values are exact in \<^verbatim>\<open>float64\<close>.
\<close>

theorem scenario_aggregates:
  "snd (plot_consumo_por_dia sample_sum scenario) =
     Inr ([(ymd 2024 1 1, 8), (ymd 2024 1 2, 4)], ymd 2024 1 1) \<and>
   snd (plot_consumo_horario_medio sample_mean
          (fst (plot_consumo_por_dia sample_sum scenario))) =
     [(2, 3), (19, 4.5)] \<and>
   snd (plot_distribuicao_consumo sample_sum
          (fst (plot_consumo_horario_medio sample_mean
                  (fst (plot_consumo_por_dia sample_sum scenario))))) =
     [(''Pico (18h-23h)'', 9), (''Noturno (0h-5h)'', 3), (''Outros'', 0)]"
  by code_simp

section \<open>The loader\<close>

lemma dropna_zip_map:
  "dropna (zip (map a xs) (zip (map b xs) (map c xs))) =
   map (\<lambda>x. \<lparr>Data_hora = the (a x), Consumo_kwh = the (b x), Custo_total = the (c x)\<rparr>)
     (filter (\<lambda>x. a x \<noteq> None \<and> b x \<noteq> None \<and> c x \<noteq> None) xs)"
proof (induction xs)
  case Nil
  then show ?case by simp
next
  case (Cons x xs)
  then show ?case
    by (cases "a x"; cases "b x"; cases "c x") simp_all
qed

lemma load_data_missing:
  "\<not> set required_columns \<subseteq> set (map normalize_column (columns data)) \<Longrightarrow>
   load_data to_datetime to_numeric data = Inl MissingColumns"
  by (simp add: load_data_def Let_def)

lemma load_data_duplicate:
  assumes "set required_columns \<subseteq> set (map normalize_column (columns data))"
    and "\<not> (\<forall>name\<in>set required_columns.
              count_list (map normalize_column (columns data)) name = 1)"
  shows "load_data to_datetime to_numeric data = Inl LoadFailure"
  using assms by (simp add: load_data_def Let_def list_ex_iff)

text \<open>A coercion that raises on its column makes the load fail.\<close>

lemma load_data_coercion_raises:
  assumes "set required_columns \<subseteq> set (map normalize_column (columns data))"
    and "\<not> coercions_return to_datetime to_numeric data"
  shows "load_data to_datetime to_numeric data = Inl LoadFailure"
  using assms
  by (auto simp: load_data_def Let_def coercions_return_def column_of_def
      split: option.splits)

lemma load_data_rows:
  assumes "set required_columns \<subseteq> set (map normalize_column (columns data))"
    and "\<forall>name\<in>set required_columns.
           count_list (map normalize_column (columns data)) name = 1"
    and "coercions_return to_datetime to_numeric data"
  shows "load_data to_datetime to_numeric data =
         Inr \<lparr>rows = map (record_of to_datetime to_numeric data)
                      (filter (all_parsed to_datetime to_numeric data) (cells data)),
              Dia = None, Hora = None\<rparr>"
proof -
  let ?names = "map normalize_column (columns data)"
  let ?a = "parsed_Data_hora to_datetime data"
  let ?b = "parsed_Consumo_kwh to_numeric data"
  let ?c = "parsed_Custo_total to_numeric data"
  from assms(3) obtain f g h
    where f': "to_datetime (column_of data ''Data/hora'') = Some f"
      and g': "to_numeric (column_of data ''Consumo_kwh'') = Some g"
      and h': "to_numeric (column_of data ''Custo_total'') = Some h"
    by (auto simp: coercions_return_def)
  then have f: "to_datetime (getitem ?names (cells data) ''Data/hora'') = Some f"
    and g: "to_numeric (getitem ?names (cells data) ''Consumo_kwh'') = Some g"
    and h: "to_numeric (getitem ?names (cells data) ''Custo_total'') = Some h"
    by (simp_all add: column_of_def)
  have guard: "\<not> list_ex (\<lambda>name. count_list ?names name \<noteq> 1) required_columns"
    using assms(2) by (simp add: list_ex_iff)
  have a: "map f (getitem ?names (cells data) ''Data/hora'') = map ?a (cells data)"
    by (simp add: parsed_Data_hora_def f' field_def getitem_def)
  have b: "map g (getitem ?names (cells data) ''Consumo_kwh'') = map ?b (cells data)"
    by (simp add: parsed_Consumo_kwh_def g' field_def getitem_def)
  have c: "map h (getitem ?names (cells data) ''Custo_total'') = map ?c (cells data)"
    by (simp add: parsed_Custo_total_def h' field_def getitem_def)
  have "load_data to_datetime to_numeric data =
        Inr \<lparr>rows = dropna (zip (map f (getitem ?names (cells data) ''Data/hora''))
                 (zip (map g (getitem ?names (cells data) ''Consumo_kwh''))
                      (map h (getitem ?names (cells data) ''Custo_total'')))),
             Dia = None, Hora = None\<rparr>"
    unfolding load_data_def Let_def using assms(1) guard
    by (simp only: f g h option.case simp_thms if_False)
  also have "\<dots> = Inr \<lparr>rows = dropna (zip (map ?a (cells data))
                               (zip (map ?b (cells data)) (map ?c (cells data)))),
             Dia = None, Hora = None\<rparr>"
    by (simp only: a b c)
  also have "dropna (zip (map ?a (cells data)) (zip (map ?b (cells data)) (map ?c (cells data)))) =
             map (record_of to_datetime to_numeric data)
               (filter (all_parsed to_datetime to_numeric data) (cells data))"
    by (simp only: dropna_zip_map record_of_def [abs_def] all_parsed_def [abs_def])
  finally show ?thesis .
qed

lemma load_data_Inr:
  assumes "load_data to_datetime to_numeric data = Inr out"
  shows "rows out = map (record_of to_datetime to_numeric data)
                      (filter (all_parsed to_datetime to_numeric data) (cells data))"
proof -
  have p: "set required_columns \<subseteq> set (map normalize_column (columns data))"
    using assms load_data_missing [of data to_datetime to_numeric] by auto
  have q: "\<forall>name\<in>set required_columns.
             count_list (map normalize_column (columns data)) name = 1"
    using assms load_data_duplicate [OF p, of to_datetime to_numeric] by auto
  have r: "coercions_return to_datetime to_numeric data"
    using assms load_data_coercion_raises [OF p, of to_datetime to_numeric] by auto
  show ?thesis
    using assms load_data_rows [OF p q r] by auto
qed

text \<open>
  C3, as stated: every record that survives the loader has a non-negative consumption.
  The loader has no such check: the row with the consumption \<^verbatim>\<open>-5\<close> survives.
\<close>

theorem negative_consumption_survives_counterexample:
  "load_data sample_to_datetime sample_to_numeric negative_csv =
     Inr \<lparr>rows = [\<lparr>Data_hora = at_time (ymd 2024 1 1) 19 0, Consumo_kwh = - 5,
                    Custo_total = 10\<rparr>], Dia = None, Hora = None\<rparr> \<and>
   Consumo_kwh \<lparr>Data_hora = at_time (ymd 2024 1 1) 19 0, Consumo_kwh = - 5,
                Custo_total = 10\<rparr> < 0"
  by code_simp

text \<open>
  C3, amended: every record that survives the loader has its three fields present and
  typed: it comes from a row of the input whose timestamp cell was coerced to the
  record's timestamp and whose consumption and cost cells were coerced to the record's
  two numbers. The consumption is any real number, negative ones included.
\<close>

theorem surviving_record_fields:
  assumes "load_data to_datetime to_numeric data = Inr out"
    and "r \<in> set (rows out)"
  shows "\<exists>cs\<in>set (cells data).
           parsed_Data_hora to_datetime data cs = Some (Data_hora r) \<and>
           parsed_Consumo_kwh to_numeric data cs = Some (Consumo_kwh r) \<and>
           parsed_Custo_total to_numeric data cs = Some (Custo_total r)"
proof -
  from assms obtain cs where cs: "cs \<in> set (cells data)"
    and ok: "all_parsed to_datetime to_numeric data cs"
    and r: "r = record_of to_datetime to_numeric data cs"
    by (auto simp: load_data_Inr)
  from ok r have "parsed_Data_hora to_datetime data cs = Some (Data_hora r) \<and>
           parsed_Consumo_kwh to_numeric data cs = Some (Consumo_kwh r) \<and>
           parsed_Custo_total to_numeric data cs = Some (Custo_total r)"
    by (auto simp: all_parsed_def record_of_def)
  with cs show ?thesis by blast
qed

theorem surviving_record_fields_witness:
  "\<exists>cs\<in>set (cells negative_csv).
     parsed_Data_hora sample_to_datetime negative_csv cs = Some (at_time (ymd 2024 1 1) 19 0) \<and>
     parsed_Consumo_kwh sample_to_numeric negative_csv cs = Some (- 5) \<and>
     parsed_Custo_total sample_to_numeric negative_csv cs = Some 10"
proof -
  let ?r = "\<lparr>Data_hora = at_time (ymd 2024 1 1) 19 0, Consumo_kwh = - 5, Custo_total = 10\<rparr>"
  have h1: "load_data sample_to_datetime sample_to_numeric negative_csv =
            Inr \<lparr>rows = [?r], Dia = None, Hora = None\<rparr>"
    by code_simp
  have h2: "?r \<in> set (rows \<lparr>rows = [?r], Dia = None, Hora = None\<rparr>)"
    by simp
  show ?thesis
    using surviving_record_fields [OF h1 h2] by simp
qed

text \<open>
  C5. When, after normalisation of the column names, a required column is not in the
  header, the loader returns the missing-columns failure, whatever the rows hold, and
  no frame.
\<close>

theorem missing_column_fails:
  assumes "\<not> set required_columns \<subseteq> set (map normalize_column (columns data))"
  shows "load_data to_datetime to_numeric data = Inl MissingColumns"
  using assms by (simp add: load_data_def Let_def)

theorem missing_column_fails_witness:
  "load_data sample_to_datetime sample_to_numeric no_cost_csv = Inl MissingColumns"
proof -
  have h: "\<not> set required_columns \<subseteq> set (map normalize_column (columns no_cost_csv))"
    by code_simp
  show ?thesis by (rule missing_column_fails [OF h])
qed

text \<open>
  C6, as stated: with all required columns present, a row is in the output exactly when
  its three fields parsed. A header in which a second column takes the normalised name
  of a required one has all required columns present, and its row parses in all three
  fields, yet the loader fails and returns no record.
\<close>

theorem duplicate_column_fails_counterexample:
  "set required_columns \<subseteq> set (map normalize_column (columns duplicate_csv)) \<and>
   all_parsed sample_to_datetime sample_to_numeric duplicate_csv
     [''2024-01-01 19:00'', ''5'', ''10.0'', ''3''] \<and>
   load_data sample_to_datetime sample_to_numeric duplicate_csv = Inl LoadFailure"
  by code_simp

text \<open>
  C6, amended: when every required column is present, each required name occurs once
  among the normalised column names and none of the three coercions raises on its
  column, the loader returns a frame whose records are those of the rows whose three
  fields all parsed, one record per such row, in the order of the rows; so there are at
  most as many records as rows. (When a required name occurs twice or a coercion
  raises, the loader returns no frame: \<open>load_data_duplicate\<close>,
  \<open>load_data_coercion_raises\<close>.)
\<close>

theorem loader_keeps_parsed_rows:
  assumes "set required_columns \<subseteq> set (map normalize_column (columns data))"
    and "\<forall>name\<in>set required_columns.
           count_list (map normalize_column (columns data)) name = 1"
    and "coercions_return to_datetime to_numeric data"
  shows "\<exists>out. load_data to_datetime to_numeric data = Inr out \<and>
           rows out = map (record_of to_datetime to_numeric data)
                        (filter (all_parsed to_datetime to_numeric data) (cells data)) \<and>
           length (rows out) \<le> length (cells data)"
  by (simp add: load_data_rows [OF assms])

theorem loader_keeps_parsed_rows_witness:
  "\<exists>out. load_data sample_to_datetime sample_to_numeric scenario_csv = Inr out \<and>
     rows out = map (record_of sample_to_datetime sample_to_numeric scenario_csv)
                  (filter (all_parsed sample_to_datetime sample_to_numeric scenario_csv)
                     (cells scenario_csv)) \<and>
     length (rows out) \<le> length (cells scenario_csv)"
proof -
  have h1: "set required_columns \<subseteq> set (map normalize_column (columns scenario_csv))"
    by code_simp
  have h2: "\<forall>name\<in>set required_columns.
              count_list (map normalize_column (columns scenario_csv)) name = 1"
    by code_simp
  have h3: "coercions_return sample_to_datetime sample_to_numeric scenario_csv"
    by (simp add: coercions_return_def sample_to_datetime_def sample_to_numeric_def)
  show ?thesis by (rule loader_keeps_parsed_rows [OF h1 h2 h3])
qed

text \<open>
  C10, as stated: two inputs whose headers contain the required columns and whose rows
  agree on these columns load to the same records, whatever other columns there are.
  A fourth column whose name normalises to the name of the consumption column makes the
  load fail, while the same table without it loads.
\<close>

theorem extra_column_changes_result_counterexample:
  "set required_columns \<subseteq> set (map normalize_column (columns plain_csv)) \<and>
   set required_columns \<subseteq> set (map normalize_column (columns duplicate_csv)) \<and>
   column_of plain_csv ''Data/hora'' = column_of duplicate_csv ''Data/hora'' \<and>
   column_of plain_csv ''Consumo_kwh'' = column_of duplicate_csv ''Consumo_kwh'' \<and>
   column_of plain_csv ''Custo_total'' = column_of duplicate_csv ''Custo_total'' \<and>
   load_data sample_to_datetime sample_to_numeric plain_csv \<noteq>
   load_data sample_to_datetime sample_to_numeric duplicate_csv"
  by code_simp

text \<open>
  C10, amended: two inputs whose headers contain every required column, each required
  name once among the normalised names, and whose rows agree on the three required
  columns, load to the same result, whatever other columns they have and whatever
  these hold.
\<close>

theorem other_columns_do_not_matter:
  assumes "set required_columns \<subseteq> set (map normalize_column (columns data1))"
    and "\<forall>name\<in>set required_columns.
           count_list (map normalize_column (columns data1)) name = 1"
    and "set required_columns \<subseteq> set (map normalize_column (columns data2))"
    and "\<forall>name\<in>set required_columns.
           count_list (map normalize_column (columns data2)) name = 1"
    and "\<forall>name\<in>set required_columns. column_of data1 name = column_of data2 name"
  shows "load_data to_datetime to_numeric data1 = load_data to_datetime to_numeric data2"
proof -
  have g1: "\<not> list_ex (\<lambda>name. count_list (map normalize_column (columns data1)) name \<noteq> 1)
              required_columns"
    using assms(2) by (simp add: list_ex_iff)
  have g2: "\<not> list_ex (\<lambda>name. count_list (map normalize_column (columns data2)) name \<noteq> 1)
              required_columns"
    using assms(4) by (simp add: list_ex_iff)
  have eq: "getitem (map normalize_column (columns data1)) (cells data1) name =
            getitem (map normalize_column (columns data2)) (cells data2) name"
    if "name \<in> set required_columns" for name
    using assms(5) that by (simp add: column_of_def)
  have e1: "getitem (map normalize_column (columns data1)) (cells data1) ''Data/hora'' =
            getitem (map normalize_column (columns data2)) (cells data2) ''Data/hora''"
    by (rule eq) (simp add: required_columns_def)
  have e2: "getitem (map normalize_column (columns data1)) (cells data1) ''Consumo_kwh'' =
            getitem (map normalize_column (columns data2)) (cells data2) ''Consumo_kwh''"
    by (rule eq) (simp add: required_columns_def)
  have e3: "getitem (map normalize_column (columns data1)) (cells data1) ''Custo_total'' =
            getitem (map normalize_column (columns data2)) (cells data2) ''Custo_total''"
    by (rule eq) (simp add: required_columns_def)
  show ?thesis
    unfolding load_data_def Let_def
    using assms(1) assms(3) g1 g2 by (simp only: e1 e2 e3 simp_thms if_False)
qed

theorem other_columns_do_not_matter_witness:
  "load_data sample_to_datetime sample_to_numeric scenario_csv =
   load_data sample_to_datetime sample_to_numeric
     \<lparr>columns = [''Custo_total'', ''Data/hora'', ''Consumo_kwh''],
      cells = [[''10.0'', ''2024-01-01 19:00'', ''5''],
               [''6.0'', ''2024-01-01 02:00'', ''3''],
               [''8.0'', ''2024-01-02 19:00'', ''4'']]\<rparr>"
proof -
  let ?d = "\<lparr>columns = [''Custo_total'', ''Data/hora'', ''Consumo_kwh''],
      cells = [[''10.0'', ''2024-01-01 19:00'', ''5''],
               [''6.0'', ''2024-01-01 02:00'', ''3''],
               [''8.0'', ''2024-01-02 19:00'', ''4'']]\<rparr> :: string csv_frame"
  have h1: "set required_columns \<subseteq> set (map normalize_column (columns scenario_csv))"
    by code_simp
  have h2: "\<forall>name\<in>set required_columns.
              count_list (map normalize_column (columns scenario_csv)) name = 1"
    by code_simp
  have h3: "set required_columns \<subseteq> set (map normalize_column (columns ?d))"
    by code_simp
  have h4: "\<forall>name\<in>set required_columns.
              count_list (map normalize_column (columns ?d)) name = 1"
    by code_simp
  have h5: "\<forall>name\<in>set required_columns. column_of scenario_csv name = column_of ?d name"
    by code_simp
  show ?thesis by (rule other_columns_do_not_matter [OF h1 h2 h3 h4 h5])
qed

end
